theory Spec2Isabelle
  imports Main "HOL-Library.Word"
begin

unbundle bit_operations_syntax

section \<open>The JavaScript values the connection works on\<close>

text \<open>
  A Node.js \<open>Buffer\<close> is a sequence of bytes and a JavaScript string a sequence of
  16-bit code units. Lengths, offsets and the decoded frame length are JavaScript numbers
  holding integers far below \<open>2 ^ 53\<close>; they are \<open>nat\<close>, or \<open>int\<close> where the source
  can make them negative.
\<close>

type_synonym byte = "8 word"
type_synonym Buffer = "byte list"
type_synonym code_unit = "16 word"
type_synonym jsstring = "code_unit list"

text \<open>The code units of an ASCII literal.\<close>

definition js :: "string \<Rightarrow> jsstring" where
  "js s = map of_char s"

text \<open>
  What a JavaScript function can throw here: the three built-in errors the runtime raises,
  an \<open>Error\<close> made by the source with its message, and a failure of a file-system call.
\<close>

datatype error = RangeError | SyntaxError | TypeError | Error string | SystemError

text \<open>
  A function that mutates the connection and may throw: the state is there in both cases,
  since what was assigned before the \<open>throw\<close> stays assigned.
\<close>

datatype 's completion = Normal 's | Throw error 's

fun state_of :: "'s completion \<Rightarrow> 's" where
  "state_of (Normal s) = s"
| "state_of (Throw err s) = s"

subsection \<open>UTF-8\<close>

text \<open>
  \<open>buffer.toString("utf-8", start, end)\<close> decodes the bytes between the two offsets
  (both clamped to the buffer). An ill-formed sequence gives U+FFFD for each maximal
  subpart, after which decoding goes on at the offending byte. The decoder state is either
  idle or inside a sequence: the code point so far, the number of bytes still needed, and
  the bounds of the next byte.
\<close>

datatype utf8_state = Idle | Cont nat nat nat nat

definition utf8_start :: "nat \<Rightarrow> nat list \<times> utf8_state" where
  "utf8_start b =
     (if b < 0x80 then ([b], Idle)
      else if 0xC2 \<le> b \<and> b \<le> 0xDF then ([], Cont (b mod 0x20) 1 0x80 0xBF)
      else if 0xE0 \<le> b \<and> b \<le> 0xEF then
        ([], Cont (b mod 0x10) 2 (if b = 0xE0 then 0xA0 else 0x80) (if b = 0xED then 0x9F else 0xBF))
      else if 0xF0 \<le> b \<and> b \<le> 0xF4 then
        ([], Cont (b mod 8) 3 (if b = 0xF0 then 0x90 else 0x80) (if b = 0xF4 then 0x8F else 0xBF))
      else ([0xFFFD], Idle))"

definition utf8_step :: "utf8_state \<Rightarrow> nat \<Rightarrow> nat list \<times> utf8_state" where
  "utf8_step st b =
     (case st of
        Idle \<Rightarrow> utf8_start b
      | Cont cp n lo hi \<Rightarrow>
          if lo \<le> b \<and> b \<le> hi then
            (if n = 1 then ([cp * 64 + b mod 64], Idle)
             else ([], Cont (cp * 64 + b mod 64) (n - 1) 0x80 0xBF))
          else (0xFFFD # fst (utf8_start b), snd (utf8_start b)))"

fun utf8_run :: "utf8_state \<Rightarrow> nat list \<Rightarrow> nat list" where
  "utf8_run st [] = (case st of Idle \<Rightarrow> [] | Cont cp n lo hi \<Rightarrow> [0xFFFD])"
| "utf8_run st (b # bs) = fst (utf8_step st b) @ utf8_run (snd (utf8_step st b)) bs"

definition utf16_units :: "nat \<Rightarrow> jsstring" where
  "utf16_units cp =
     (if cp < 0x10000 then [of_nat cp]
      else [of_nat (0xD800 + (cp - 0x10000) div 0x400),
            of_nat (0xDC00 + (cp - 0x10000) mod 0x400)])"

definition utf8_decode :: "Buffer \<Rightarrow> jsstring" where
  "utf8_decode bytes = concat (map utf16_units (utf8_run Idle (map unat bytes)))"

definition Buffer_toString :: "Buffer \<Rightarrow> nat \<Rightarrow> nat \<Rightarrow> jsstring" where
  "Buffer_toString buffer start end = utf8_decode (take (end - start) (drop start buffer))"

text \<open>
  \<open>buffer.write(string, offset, "utf-8")\<close> encodes the string character by character
  (a surrogate pair is one character of four bytes, a lone surrogate is written as U+FFFD)
  and stops at the first character that no longer fits: a partially encoded character is
  not written.
\<close>

definition is_high_surrogate :: "code_unit \<Rightarrow> bool" where
  "is_high_surrogate u = (0xD800 \<le> u \<and> u \<le> 0xDBFF)"

definition is_low_surrogate :: "code_unit \<Rightarrow> bool" where
  "is_low_surrogate u = (0xDC00 \<le> u \<and> u \<le> 0xDFFF)"

definition utf8_of_code_point :: "nat \<Rightarrow> Buffer" where
  "utf8_of_code_point cp =
     (if cp < 0x80 then [of_nat cp]
      else if cp < 0x800 then [of_nat (0xC0 + cp div 64), of_nat (0x80 + cp mod 64)]
      else if cp < 0x10000 then
        [of_nat (0xE0 + cp div 4096), of_nat (0x80 + cp div 64 mod 64), of_nat (0x80 + cp mod 64)]
      else [of_nat (0xF0 + cp div 262144), of_nat (0x80 + cp div 4096 mod 64),
            of_nat (0x80 + cp div 64 mod 64), of_nat (0x80 + cp mod 64)])"

definition lone_unit :: "code_unit \<Rightarrow> Buffer" where
  "lone_unit u =
     utf8_of_code_point (if is_high_surrogate u \<or> is_low_surrogate u then 0xFFFD else unat u)"

fun utf8_chars :: "jsstring \<Rightarrow> Buffer list" where
  "utf8_chars [] = []"
| "utf8_chars [u] = [lone_unit u]"
| "utf8_chars (u # v # rest) =
     (if is_high_surrogate u \<and> is_low_surrogate v then
        utf8_of_code_point (0x10000 + (unat u - 0xD800) * 0x400 + (unat v - 0xDC00)) # utf8_chars rest
      else lone_unit u # utf8_chars (v # rest))"

text \<open>The byte length of the UTF-8 encoding of a string (\<open>Buffer.byteLength\<close>).\<close>

definition utf8_length :: "jsstring \<Rightarrow> nat" where
  "utf8_length s = length (concat (utf8_chars s))"

fun write_fitting :: "Buffer list \<Rightarrow> nat \<Rightarrow> Buffer" where
  "write_fitting [] room = []"
| "write_fitting (c # cs) room =
     (if length c \<le> room then c @ write_fitting cs (room - length c) else [])"

definition Buffer_write :: "Buffer \<Rightarrow> jsstring \<Rightarrow> nat \<Rightarrow> Buffer" where
  "Buffer_write buffer string offset =
     (let written = write_fitting (utf8_chars string) (length buffer - offset)
      in take offset buffer @ written @ drop (offset + length written) buffer)"

definition Buffer_alloc :: "nat \<Rightarrow> Buffer" where
  "Buffer_alloc n = replicate n 0"

subsection \<open>The length header\<close>

text \<open>
  \<open>os.endianness()\<close> is a constant of the machine the program runs on; the model takes it
  as a parameter. \<open>readUInt32BE\<close> and \<open>readUInt32LE\<close> throw a RangeError when the
  four bytes are not all inside the buffer, \<open>writeUInt32BE\<close> and \<open>writeUInt32LE\<close> also
  when the value is not an unsigned 32-bit integer.
\<close>

datatype endianness = BE | LE

definition readUint32 :: "endianness \<Rightarrow> Buffer \<Rightarrow> nat \<Rightarrow> error + nat" where
  "readUint32 e buffer offset =
     (if length buffer < offset + 4 then Inl RangeError
      else
        (let b0 = unat (buffer ! offset); b1 = unat (buffer ! (offset + 1));
             b2 = unat (buffer ! (offset + 2)); b3 = unat (buffer ! (offset + 3))
         in case e of
              BE \<Rightarrow> Inr (b0 * 16777216 + b1 * 65536 + b2 * 256 + b3)
            | LE \<Rightarrow> Inr (b0 + b1 * 256 + b2 * 65536 + b3 * 16777216)))"

definition uint32_bytes :: "endianness \<Rightarrow> nat \<Rightarrow> Buffer" where
  "uint32_bytes e v =
     (case e of
        BE \<Rightarrow> [of_nat (v div 16777216), of_nat (v div 65536 mod 256), of_nat (v div 256 mod 256),
               of_nat (v mod 256)]
      | LE \<Rightarrow> [of_nat (v mod 256), of_nat (v div 256 mod 256), of_nat (v div 65536 mod 256),
               of_nat (v div 16777216)])"

definition writeUint32 :: "endianness \<Rightarrow> Buffer \<Rightarrow> nat \<Rightarrow> nat \<Rightarrow> error + Buffer" where
  "writeUint32 e buffer v offset =
     (if 4294967296 \<le> v \<or> length buffer < offset + 4 then Inl RangeError
      else Inr (take offset buffer @ uint32_bytes e v @ drop (offset + 4) buffer))"

section \<open>NativeConnection\<close>

text \<open>
  The entries of \<open>_readQueue\<close> are functions. Two kinds are ever pushed: the \<open>resolve\<close>
  function of the promise a \<open>readMessage\<close> call returns, and the arrow function
  \<open>x => { clearTimeout(timeoutId); resolve(x); }\<close> made when a timeout was given. Both
  are identified by the promise they belong to, numbered in creation order; the timeout of
  a call is identified by the same number. \<open>indexOf\<close> compares functions by identity, so
  \<open>Resolve p\<close> and \<open>Wrapper p\<close> are different entries.
\<close>

datatype callback = Resolve nat | Wrapper nat

datatype rejection = TimeoutReached | Thrown error

datatype 'v promise = Pending | Fulfilled 'v | Rejected rejection

datatype incomplete = Undefined | Null | Str jsstring

datatype NativeAppType = Firefox | Chrome | Chromium | Vivaldi

text \<open>
  The fields of the class, and what it acts on outside itself: the promises it has handed
  out, the timeouts that are armed, and how often \<open>kill()\<close> was called on the process.
\<close>

record 'v NativeConnection =
  app_type :: NativeAppType
  connected :: bool
  messageQueue :: "Buffer list"
  readQueue :: "callback list"
  incompleteMessage :: incomplete
  remainingMessageSize :: int
  promises :: "'v promise list"
  timers :: "nat list"
  kills :: nat

definition constructor :: "NativeAppType \<Rightarrow> 'v NativeConnection" where
  "constructor t =
     \<lparr>app_type = t, connected = True, messageQueue = [], readQueue = [],
      incompleteMessage = Undefined, remainingMessageSize = 0, promises = [], timers = [],
      kills = 0\<rparr>"

text \<open>Settling a promise that is already settled does nothing.\<close>

definition resolve :: "nat \<Rightarrow> 'v \<Rightarrow> 'v NativeConnection \<Rightarrow> 'v NativeConnection" where
  "resolve p x s =
     (if p < length (promises s) \<and> promises s ! p = Pending
      then s\<lparr>promises := (promises s)[p := Fulfilled x]\<rparr> else s)"

definition reject :: "nat \<Rightarrow> rejection \<Rightarrow> 'v NativeConnection \<Rightarrow> 'v NativeConnection" where
  "reject p r s =
     (if p < length (promises s) \<and> promises s ! p = Pending
      then s\<lparr>promises := (promises s)[p := Rejected r]\<rparr> else s)"

definition clearTimeout :: "nat \<Rightarrow> 'v NativeConnection \<Rightarrow> 'v NativeConnection" where
  "clearTimeout p s = s\<lparr>timers := removeAll p (timers s)\<rparr>"

fun call :: "callback \<Rightarrow> 'v \<Rightarrow> 'v NativeConnection \<Rightarrow> 'v NativeConnection" where
  "call (Resolve p) x s = resolve p x s"
| "call (Wrapper p) x s = resolve p x (clearTimeout p s)"

text \<open>
  \<open>dispatchMessage\<close>: the reader is shifted off the queue first, then \<open>JSON.parse\<close>
  runs, then the reader is called. \<open>JSON.parse\<close> is the runtime's; the model takes it as
  the parameter \<open>parse\<close>, \<open>None\<close> standing for its SyntaxError. With an empty queue
  \<open>shift()\<close> gives \<open>undefined\<close>, and calling that is a TypeError.
\<close>

definition dispatchMessage ::
  "(jsstring \<Rightarrow> 'v option) \<Rightarrow> jsstring \<Rightarrow> 'v NativeConnection \<Rightarrow> 'v NativeConnection completion"
where
  "dispatchMessage parse data s =
     (case readQueue s of
        [] \<Rightarrow> (case parse data of None \<Rightarrow> Throw SyntaxError s | Some x \<Rightarrow> Throw TypeError s)
      | cb # rest \<Rightarrow>
          (case parse data of
             None \<Rightarrow> Throw SyntaxError (s\<lparr>readQueue := rest\<rparr>)
           | Some x \<Rightarrow> Normal (call cb x (s\<lparr>readQueue := rest\<rparr>))))"

text \<open>\<open>a += t\<close> on a field that holds \<open>undefined\<close>, \<open>null\<close> or a string.\<close>

fun js_concat :: "incomplete \<Rightarrow> jsstring \<Rightarrow> jsstring" where
  "js_concat Undefined t = js ''undefined'' @ t"
| "js_concat Null t = js ''null'' @ t"
| "js_concat (Str a) t = a @ t"

text \<open>
  One iteration of the \<open>while\<close> loop of \<open>processMessageQueue\<close>, on the head chunk
  \<open>buffer\<close>.
\<close>

definition processHead ::
  "endianness \<Rightarrow> (jsstring \<Rightarrow> 'v option) \<Rightarrow> Buffer \<Rightarrow> 'v NativeConnection
     \<Rightarrow> 'v NativeConnection completion"
where
  "processHead e parse buffer s =
     (if remainingMessageSize s > 0 then
        (if int (length buffer) \<ge> remainingMessageSize s then
           (let data = js_concat (incompleteMessage s)
                         (Buffer_toString buffer 0 (nat (remainingMessageSize s)));
                s1 = s\<lparr>incompleteMessage := Str data\<rparr>
            in case dispatchMessage parse data s1 of
                 Throw err s2 \<Rightarrow> Throw err s2
               | Normal s2 \<Rightarrow>
                   (let s3 = (if int (length buffer) > remainingMessageSize s2
                              then s2\<lparr>messageQueue :=
                                        (messageQueue s2)[0 := drop (nat (remainingMessageSize s2)) buffer]\<rparr>
                              else s2\<lparr>messageQueue := tl (messageQueue s2)\<rparr>)
                    in Normal (s3\<lparr>remainingMessageSize := 0, incompleteMessage := Null\<rparr>)))
         else
           Normal (s\<lparr>incompleteMessage :=
                        Str (js_concat (incompleteMessage s) (Buffer_toString buffer 0 (length buffer))),
                      remainingMessageSize := remainingMessageSize s - int (length buffer),
                      messageQueue := tl (messageQueue s)\<rparr>))
      else
        (case readUint32 e buffer 0 of
           Inl err \<Rightarrow> Throw err s
         | Inr messageLen \<Rightarrow>
             (if messageLen + 4 \<ge> length buffer then
                (case dispatchMessage parse (Buffer_toString buffer 4 (4 + messageLen)) s of
                   Throw err s1 \<Rightarrow> Throw err s1
                 | Normal s1 \<Rightarrow>
                     (if messageLen + 4 > length buffer
                      then Normal (s1\<lparr>messageQueue :=
                                         (messageQueue s1)[0 := drop (messageLen + 4) buffer]\<rparr>)
                      else Normal (s1\<lparr>messageQueue := tl (messageQueue s1)\<rparr>)))
              else
                Normal (s\<lparr>incompleteMessage := Str (Buffer_toString buffer 4 (length buffer)),
                           remainingMessageSize := int messageLen - (int (length buffer) - 4),
                           messageQueue := tl (messageQueue s)\<rparr>))))"

text \<open>
  The \<open>while\<close> loop: it runs as long as both queues are non-empty, and an exception
  leaves it. Every iteration that returns takes a reader or a chunk off its queue, so the
  loop ends.
\<close>

function processLoop ::
  "endianness \<Rightarrow> (jsstring \<Rightarrow> 'v option) \<Rightarrow> 'v NativeConnection \<Rightarrow> 'v NativeConnection completion"
where
  "processLoop e parse s =
     (case messageQueue s of
        [] \<Rightarrow> Normal s
      | buffer # chunks \<Rightarrow>
          (if readQueue s = [] then Normal s
           else (case processHead e parse buffer s of
                   Throw err s' \<Rightarrow> Throw err s'
                 | Normal s' \<Rightarrow> processLoop e parse s')))"
  by pat_completeness auto
termination
proof (relation "measure (\<lambda>(e, parse, s). length (messageQueue s) + length (readQueue s))")
  show "wf (measure (\<lambda>(e, parse, s). length (messageQueue s) + length (readQueue s)))"
    by simp
next
  fix e :: endianness and parse :: "jsstring \<Rightarrow> 'v option" and s s' :: "'v NativeConnection"
    and buffer chunks
  assume mq: "messageQueue s = buffer # chunks" and rq: "readQueue s \<noteq> []"
    and step: "processHead e parse buffer s = Normal s'"
  have shift: "length (readQueue t') < length (readQueue t) \<and> messageQueue t' = messageQueue t"
    if "dispatchMessage parse data t = Normal t'" for data and t t' :: "'v NativeConnection"
    using that
    by (cases "readQueue t"; cases "hd (readQueue t)")
       (auto simp: dispatchMessage_def resolve_def clearTimeout_def
             split: option.splits list.splits if_splits)
  have "length (messageQueue s') + length (readQueue s')
          < length (messageQueue s) + length (readQueue s)"
    using step mq
    by (auto simp: processHead_def Let_def split: if_splits completion.splits sum.splits
             dest!: shift)
  then show "((e, parse, s'), (e, parse, s))
               \<in> measure (\<lambda>(e, parse, s). length (messageQueue s) + length (readQueue s))"
    by simp
qed

declare processLoop.simps [simp del]

definition processMessageQueue ::
  "endianness \<Rightarrow> (jsstring \<Rightarrow> 'v option) \<Rightarrow> 'v NativeConnection \<Rightarrow> 'v NativeConnection completion"
where
  "processMessageQueue e parse s =
     (if length (readQueue s) = 0 then Normal s
      else if length (messageQueue s) = 0 then Normal s
      else processLoop e parse s)"

text \<open>
  The listeners the constructor installs: a chunk from the standard output of the process
  is pushed and the queue processed; \<open>error\<close>, \<open>close\<close> and \<open>exit\<close> of the process
  clear the flag. An exception of \<open>processMessageQueue\<close> leaves the \<open>data\<close> listener.
\<close>

definition onData ::
  "endianness \<Rightarrow> (jsstring \<Rightarrow> 'v option) \<Rightarrow> Buffer \<Rightarrow> 'v NativeConnection
     \<Rightarrow> 'v NativeConnection completion"
where
  "onData e parse chunk s =
     processMessageQueue e parse (s\<lparr>messageQueue := messageQueue s @ [chunk]\<rparr>)"

definition onError :: "'v NativeConnection \<Rightarrow> 'v NativeConnection" where
  "onError s = s\<lparr>connected := False\<rparr>"

definition onClose :: "'v NativeConnection \<Rightarrow> 'v NativeConnection" where
  "onClose s = s\<lparr>connected := False\<rparr>"

definition onExit :: "'v NativeConnection \<Rightarrow> 'v NativeConnection" where
  "onExit s = s\<lparr>connected := False\<rparr>"

text \<open>
  \<open>readMessage(timeoutMs)\<close>. The argument is absent (\<open>None\<close>) or a number of
  milliseconds; \<open>if (timeoutMs)\<close> takes the first branch for a number other than 0.
  The call returns the new promise, here its number. The body is the executor of that
  promise: an exception in it rejects the promise.
\<close>

definition truthy :: "int option \<Rightarrow> bool" where
  "truthy timeoutMs = (case timeoutMs of None \<Rightarrow> False | Some ms \<Rightarrow> ms \<noteq> 0)"

definition readMessage ::
  "endianness \<Rightarrow> (jsstring \<Rightarrow> 'v option) \<Rightarrow> int option \<Rightarrow> 'v NativeConnection
     \<Rightarrow> nat \<times> 'v NativeConnection"
where
  "readMessage e parse timeoutMs s =
     (let p = length (promises s);
          s1 = s\<lparr>promises := promises s @ [Pending]\<rparr>;
          s2 = (if truthy timeoutMs
                then s1\<lparr>timers := timers s1 @ [p], readQueue := readQueue s1 @ [Wrapper p]\<rparr>
                else s1\<lparr>readQueue := readQueue s1 @ [Resolve p]\<rparr>)
      in case processMessageQueue e parse s2 of
           Normal s3 \<Rightarrow> (p, s3)
         | Throw err s3 \<Rightarrow> (p, reject p (Thrown err) s3))"

text \<open>
  The function given to \<open>setTimeout\<close>, run when the timeout of promise \<open>p\<close> fires;
  a timeout that was cleared never fires, and one that has fired is no longer armed. When
  it fires is up to the event loop: the model has it as an event of its own.
\<close>

fun indexOf :: "'a list \<Rightarrow> 'a \<Rightarrow> int" where
  "indexOf [] x = - 1"
| "indexOf (y # ys) x =
     (if y = x then 0 else if indexOf ys x < 0 then - 1 else indexOf ys x + 1)"

definition splice :: "'a list \<Rightarrow> nat \<Rightarrow> nat \<Rightarrow> 'a list" where
  "splice xs start deleteCount = take start xs @ drop (start + deleteCount) xs"

definition onTimeout :: "nat \<Rightarrow> 'v NativeConnection \<Rightarrow> 'v NativeConnection" where
  "onTimeout p s =
     (if p \<in> set (timers s) then
        (let s1 = clearTimeout p s;
             index = indexOf (readQueue s1) (Resolve p);
             s2 = (if index \<ge> 0 then s1\<lparr>readQueue := splice (readQueue s1) (nat index) 1\<rparr> else s1)
         in reject p TimeoutReached s2)
      else s)"

definition disconnect :: "'v NativeConnection \<Rightarrow> 'v NativeConnection" where
  "disconnect s = (if connected s then s\<lparr>kills := kills s + 1, connected := False\<rparr> else s)"

text \<open>
  \<open>sendMessage\<close> up to the buffer it hands to \<open>streamWrite\<close>. \<open>JSON.stringify\<close> is
  the runtime's and a parameter here.
\<close>

definition sendMessage :: "endianness \<Rightarrow> ('v \<Rightarrow> jsstring) \<Rightarrow> 'v \<Rightarrow> error + Buffer" where
  "sendMessage e stringify message =
     (let jsonContent = stringify message;
          messageLen = length jsonContent;
          messageBuffer = Buffer_alloc (messageLen + 4)
      in case writeUint32 e messageBuffer messageLen 0 of
           Inl err \<Rightarrow> Inl err
         | Inr messageBuffer' \<Rightarrow> Inr (Buffer_write messageBuffer' jsonContent 4))"

section \<open>JSON\<close>

text \<open>
  The values \<open>JSON.parse\<close> produces and \<open>JSON.stringify\<close> accepts. A number is kept
  as the decimal \<open>m * 10 ^ e\<close> with \<open>m\<close> not a multiple of 10 (zero is \<open>JNumber 0 0\<close>);
  its rounding to a double is not modelled. An object is the list of its members as
  written. The connection is stated over any \<open>parse\<close> and \<open>stringify\<close>; these two
  are what the concrete runs below use.
\<close>

datatype json =
  JNull | JBool bool | JNumber int int | JString jsstring | JArray "json list"
| JObject "(jsstring \<times> json) list"

text \<open>
  \<open>JSON.stringify(message, null, 0)\<close> on such a value: no white space, strings quoted
  with the escapes of the language standard (a lone surrogate is escaped, a pair is kept),
  numbers printed the way \<open>Number.prototype.toString\<close> prints a decimal with digits
  \<open>ds\<close> and exponent \<open>e\<close>.
\<close>

fun digits_of :: "nat \<Rightarrow> nat list" where
  "digits_of n = (if n < 10 then [n] else digits_of (n div 10) @ [n mod 10])"

declare digits_of.simps [simp del]

definition digit_chars :: "nat list \<Rightarrow> jsstring" where
  "digit_chars ds = map (\<lambda>d. of_nat (48 + d)) ds"

definition Number_toString :: "int \<Rightarrow> int \<Rightarrow> jsstring" where
  "Number_toString m e =
     (if m = 0 then js ''0''
      else
        (let ds = digits_of (nat \<bar>m\<bar>);
             k = int (length ds);
             n = k + e;
             body =
               (if k \<le> n \<and> n \<le> 21 then digit_chars (ds @ replicate (nat (n - k)) 0)
                else if 0 < n \<and> n \<le> 21 then
                  digit_chars (take (nat n) ds) @ js ''.'' @ digit_chars (drop (nat n) ds)
                else if - 6 < n \<and> n \<le> 0 then
                  js ''0.'' @ digit_chars (replicate (nat (- n)) 0 @ ds)
                else
                  digit_chars (take 1 ds) @ (if k = 1 then [] else js ''.'' @ digit_chars (drop 1 ds))
                  @ js ''e'' @ (if n - 1 < 0 then js ''-'' else js ''+'')
                  @ digit_chars (digits_of (nat \<bar>n - 1\<bar>)))
         in (if m < 0 then js ''-'' else []) @ body))"

definition hex_digit :: "nat \<Rightarrow> code_unit" where
  "hex_digit d = (if d < 10 then of_nat (48 + d) else of_nat (87 + d))"

definition unicode_escape :: "code_unit \<Rightarrow> jsstring" where
  "unicode_escape u =
     [0x5C, 0x75, hex_digit (unat u div 4096), hex_digit (unat u div 256 mod 16),
                    hex_digit (unat u div 16 mod 16), hex_digit (unat u mod 16)]"

definition quote_unit :: "code_unit \<Rightarrow> jsstring" where
  "quote_unit u =
     (if u = 0x08 then [0x5C, 0x62] else if u = 0x09 then [0x5C, 0x74]
      else if u = 0x0A then [0x5C, 0x6E] else if u = 0x0C then [0x5C, 0x66]
      else if u = 0x0D then [0x5C, 0x72] else if u = 0x22 then [0x5C, 0x22]
      else if u = 0x5C then [0x5C, 0x5C]
      else if u < 0x20 \<or> is_high_surrogate u \<or> is_low_surrogate u then unicode_escape u
      else [u])"

fun quote_units :: "jsstring \<Rightarrow> jsstring" where
  "quote_units [] = []"
| "quote_units [u] = quote_unit u"
| "quote_units (u # v # rest) =
     (if is_high_surrogate u \<and> is_low_surrogate v then u # v # quote_units rest
      else quote_unit u @ quote_units (v # rest))"

definition QuoteJSONString :: "jsstring \<Rightarrow> jsstring" where
  "QuoteJSONString s = [0x22] @ quote_units s @ [0x22]"

fun join :: "jsstring \<Rightarrow> jsstring list \<Rightarrow> jsstring" where
  "join sep [] = []"
| "join sep [x] = x"
| "join sep (x # y # ys) = x @ sep @ join sep (y # ys)"

fun JSON_stringify :: "json \<Rightarrow> jsstring" where
  "JSON_stringify JNull = js ''null''"
| "JSON_stringify (JBool b) = (if b then js ''true'' else js ''false'')"
| "JSON_stringify (JNumber m e) = Number_toString m e"
| "JSON_stringify (JString s) = QuoteJSONString s"
| "JSON_stringify (JArray xs) = js ''['' @ join (js '','') (map JSON_stringify xs) @ js '']''"
| "JSON_stringify (JObject ms) =
     js ''{'' @ join (js '','')
                  (map (\<lambda>m. QuoteJSONString (fst m) @ js '':'' @ JSON_stringify (snd m)) ms)
     @ js ''}''"


text \<open>
  \<open>JSON.parse\<close>: one value between optional white space, by recursive descent over the
  grammar of the standard. The recursion through arrays and objects is bounded by a
  counter that starts at twice the length of the text plus two, more than the number of
  nested calls any text of that length can cause. \<open>None\<close> is the SyntaxError.
\<close>

fun skip_ws :: "jsstring \<Rightarrow> jsstring" where
  "skip_ws [] = []"
| "skip_ws (c # cs) =
     (if c = 0x20 \<or> c = 0x09 \<or> c = 0x0A \<or> c = 0x0D then skip_ws cs else c # cs)"

definition hex_value :: "code_unit \<Rightarrow> nat option" where
  "hex_value c =
     (if 0x30 \<le> c \<and> c \<le> 0x39 then Some (unat c - 0x30)
      else if 0x41 \<le> c \<and> c \<le> 0x46 then Some (unat c - 0x37)
      else if 0x61 \<le> c \<and> c \<le> 0x66 then Some (unat c - 0x57)
      else None)"

definition unescape :: "code_unit \<Rightarrow> code_unit option" where
  "unescape c =
     (if c = 0x22 \<or> c = 0x5C \<or> c = 0x2F then Some c
      else if c = 0x62 then Some 0x08 else if c = 0x66 then Some 0x0C
      else if c = 0x6E then Some 0x0A else if c = 0x72 then Some 0x0D
      else if c = 0x74 then Some 0x09 else None)"

definition prepend :: "'a \<Rightarrow> ('a list \<times> 'b) option \<Rightarrow> ('a list \<times> 'b) option" where
  "prepend x r = (case r of None \<Rightarrow> None | Some (xs, rest) \<Rightarrow> Some (x # xs, rest))"

fun parse_chars :: "jsstring \<Rightarrow> (jsstring \<times> jsstring) option"
  and parse_escape :: "jsstring \<Rightarrow> (jsstring \<times> jsstring) option"
  and parse_unicode :: "jsstring \<Rightarrow> (jsstring \<times> jsstring) option"
where
  "parse_chars [] = None"
| "parse_chars (c # cs) =
     (if c = 0x22 then Some ([], cs)
      else if c = 0x5C then parse_escape cs
      else if c < 0x20 then None
      else prepend c (parse_chars cs))"
| "parse_escape [] = None"
| "parse_escape (d # ds) =
     (if d = 0x75 then parse_unicode ds
      else (case unescape d of None \<Rightarrow> None | Some u \<Rightarrow> prepend u (parse_chars ds)))"
| "parse_unicode (h1 # h2 # h3 # h4 # rest) =
     (case (hex_value h1, hex_value h2, hex_value h3, hex_value h4) of
        (Some a, Some b, Some c, Some d) \<Rightarrow>
          prepend (of_nat (a * 4096 + b * 256 + c * 16 + d)) (parse_chars rest)
      | _ \<Rightarrow> None)"
| "parse_unicode _ = None"

definition is_digit :: "code_unit \<Rightarrow> bool" where
  "is_digit c = (0x30 \<le> c \<and> c \<le> 0x39)"

fun take_digits :: "jsstring \<Rightarrow> nat list \<times> jsstring" where
  "take_digits [] = ([], [])"
| "take_digits (c # cs) =
     (if is_digit c then ((unat c - 0x30) # fst (take_digits cs), snd (take_digits cs))
      else ([], c # cs))"

definition number_of_digits :: "nat list \<Rightarrow> nat" where
  "number_of_digits ds = foldl (\<lambda>n d. 10 * n + d) 0 ds"

fun normal_decimal :: "nat \<Rightarrow> int \<Rightarrow> nat \<times> int" where
  "normal_decimal m e =
     (if m = 0 then (0, 0)
      else if m mod 10 = 0 then normal_decimal (m div 10) (e + 1)
      else (m, e))"

declare normal_decimal.simps [simp del]

definition parse_integer_part :: "jsstring \<Rightarrow> (nat list \<times> jsstring) option" where
  "parse_integer_part cs =
     (case cs of
        [] \<Rightarrow> None
      | c # rest \<Rightarrow>
          if c = 0x30 then Some ([0], rest)
          else if is_digit c then Some (take_digits cs)
          else None)"

definition parse_fraction :: "jsstring \<Rightarrow> (nat list \<times> jsstring) option" where
  "parse_fraction cs =
     (case cs of
        [] \<Rightarrow> Some ([], cs)
      | c # rest \<Rightarrow>
          if c = 0x2E then
            (if fst (take_digits rest) = [] then None else Some (take_digits rest))
          else Some ([], cs))"

definition parse_exponent :: "jsstring \<Rightarrow> (int \<times> jsstring) option" where
  "parse_exponent cs =
     (case cs of
        [] \<Rightarrow> Some (0, cs)
      | c # rest \<Rightarrow>
          if c = 0x65 \<or> c = 0x45 then
            (let negative = (case rest of [] \<Rightarrow> False | s # _ \<Rightarrow> s = 0x2D);
                 signed = (case rest of [] \<Rightarrow> False | s # _ \<Rightarrow> s = 0x2D \<or> s = 0x2B);
                 body = (if signed then tl rest else rest)
             in if fst (take_digits body) = [] then None
                else Some ((if negative then - 1 else 1)
                             * int (number_of_digits (fst (take_digits body))),
                           snd (take_digits body)))
          else Some (0, cs))"

definition parse_number :: "jsstring \<Rightarrow> (json \<times> jsstring) option" where
  "parse_number cs =
     (let negative = (case cs of [] \<Rightarrow> False | c # _ \<Rightarrow> c = 0x2D);
          body = (if negative then tl cs else cs)
      in case parse_integer_part body of
           None \<Rightarrow> None
         | Some (ip, r1) \<Rightarrow>
             (case parse_fraction r1 of
                None \<Rightarrow> None
              | Some (fp, r2) \<Rightarrow>
                  (case parse_exponent r2 of
                     None \<Rightarrow> None
                   | Some (ex, r3) \<Rightarrow>
                       (let d = normal_decimal (number_of_digits (ip @ fp)) (ex - int (length fp))
                        in Some (JNumber ((if negative then - 1 else 1) * int (fst d)) (snd d), r3)))))"

definition literal :: "jsstring \<Rightarrow> json \<Rightarrow> jsstring \<Rightarrow> (json \<times> jsstring) option" where
  "literal word v cs =
     (if take (length word) cs = word then Some (v, drop (length word) cs) else None)"

definition expect :: "code_unit \<Rightarrow> jsstring \<Rightarrow> jsstring option" where
  "expect c cs =
     (case skip_ws cs of [] \<Rightarrow> None | d # rest \<Rightarrow> if d = c then Some rest else None)"

fun parse_value :: "nat \<Rightarrow> jsstring \<Rightarrow> (json \<times> jsstring) option"
  and parse_elements :: "nat \<Rightarrow> jsstring \<Rightarrow> (json list \<times> jsstring) option"
  and parse_members :: "nat \<Rightarrow> jsstring \<Rightarrow> ((jsstring \<times> json) list \<times> jsstring) option"
where
  "parse_value 0 cs = None"
| "parse_value (Suc fuel) cs =
     (case skip_ws cs of
        [] \<Rightarrow> None
      | c # rest \<Rightarrow>
          if c = 0x7B then
            (case expect 0x7D rest of
               Some after \<Rightarrow> Some (JObject [], after)
             | None \<Rightarrow>
                 (case parse_members fuel rest of
                    None \<Rightarrow> None
                  | Some (ms, after) \<Rightarrow> Some (JObject ms, after)))
          else if c = 0x5B then
            (case expect 0x5D rest of
               Some after \<Rightarrow> Some (JArray [], after)
             | None \<Rightarrow>
                 (case parse_elements fuel rest of
                    None \<Rightarrow> None
                  | Some (xs, after) \<Rightarrow> Some (JArray xs, after)))
          else if c = 0x22 then
            (case parse_chars rest of
               None \<Rightarrow> None
             | Some (s, after) \<Rightarrow> Some (JString s, after))
          else if c = 0x74 then literal (js ''true'') (JBool True) (c # rest)
          else if c = 0x66 then literal (js ''false'') (JBool False) (c # rest)
          else if c = 0x6E then literal (js ''null'') JNull (c # rest)
          else parse_number (c # rest))"
| "parse_elements 0 cs = None"
| "parse_elements (Suc fuel) cs =
     (case parse_value fuel cs of
        None \<Rightarrow> None
      | Some (v, rest) \<Rightarrow>
          (case expect 0x2C rest of
             Some after \<Rightarrow> prepend v (parse_elements fuel after)
           | None \<Rightarrow>
               (case expect 0x5D rest of
                  Some after \<Rightarrow> Some ([v], after)
                | None \<Rightarrow> None)))"
| "parse_members 0 cs = None"
| "parse_members (Suc fuel) cs =
     (case expect 0x22 cs of
        None \<Rightarrow> None
      | Some r1 \<Rightarrow>
          (case parse_chars r1 of
             None \<Rightarrow> None
           | Some (k, r2) \<Rightarrow>
               (case expect 0x3A r2 of
                  None \<Rightarrow> None
                | Some r3 \<Rightarrow>
                    (case parse_value fuel r3 of
                       None \<Rightarrow> None
                     | Some (v, r4) \<Rightarrow>
                         (case expect 0x2C r4 of
                            Some after \<Rightarrow> prepend (k, v) (parse_members fuel after)
                          | None \<Rightarrow>
                              (case expect 0x7D r4 of
                                 Some after \<Rightarrow> Some ([(k, v)], after)
                               | None \<Rightarrow> None))))))"

definition JSON_parse :: "jsstring \<Rightarrow> json option" where
  "JSON_parse text =
     (case parse_value (2 * length text + 2) text of
        None \<Rightarrow> None
      | Some (v, rest) \<Rightarrow> if skip_ws rest = [] then Some v else None)"

section \<open>NativeConnector\<close>



















section \<open>Runs\<close>

text \<open>
  A sequence of \<open>data\<close> events, one chunk each; it ends when a listener lets an exception
  escape.
\<close>

fun onData_all ::
  "endianness \<Rightarrow> (jsstring \<Rightarrow> 'v option) \<Rightarrow> Buffer list \<Rightarrow> 'v NativeConnection
     \<Rightarrow> 'v NativeConnection completion"
where
  "onData_all e parse [] s = Normal s"
| "onData_all e parse (chunk # chunks) s =
     (case onData e parse chunk s of
        Throw err s' \<Rightarrow> Throw err s'
      | Normal s' \<Rightarrow> onData_all e parse chunks s')"

text \<open>
  Connections with readers waiting, on a little-endian machine: one reader without a
  timeout; two of them; a reader whose timeout of 100 ms has fired, followed by a reader
  without a timeout; and the same followed by two readers without a timeout.
\<close>

definition one_reader :: "json NativeConnection" where
  "one_reader = snd (readMessage LE JSON_parse None (constructor Chrome))"

definition two_readers :: "json NativeConnection" where
  "two_readers = snd (readMessage LE JSON_parse None one_reader)"

definition timed_out_reader :: "json NativeConnection" where
  "timed_out_reader =
     onTimeout 0 (snd (readMessage LE JSON_parse (Some 100) (constructor Chrome)))"

definition late_reader :: "json NativeConnection" where
  "late_reader = snd (readMessage LE JSON_parse None timed_out_reader)"

definition two_late_readers :: "json NativeConnection" where
  "two_late_readers = snd (readMessage LE JSON_parse None late_reader)"


section \<open>Evaluating concrete runs\<close>

text \<open>
  The equations that evaluate the definitions on concrete input. The counter of the JSON
  parser is a numeral there, so its equations are restated for numerals.
\<close>

lemmas engine_defs =
  onData_def processMessageQueue_def processLoop.simps processHead_def dispatchMessage_def
  readMessage_def truthy_def constructor_def resolve_def reject_def clearTimeout_def
  onTimeout_def splice_def readUint32_def Buffer_toString_def utf8_decode_def utf8_step_def
  utf8_start_def utf16_units_def Let_def

lemmas send_defs =
  sendMessage_def Buffer_alloc_def writeUint32_def uint32_bytes_def Buffer_write_def
  utf8_length_def lone_unit_def utf8_of_code_point_def is_high_surrogate_def
  is_low_surrogate_def Let_def

lemmas parse_numeral =
  parse_value.simps(2) [of "pred_numeral n" for n, folded numeral_eq_Suc]
  parse_elements.simps(2) [of "pred_numeral n" for n, folded numeral_eq_Suc]
  parse_members.simps(2) [of "pred_numeral n" for n, folded numeral_eq_Suc]

lemmas json_defs =
  js_def Number_toString_def digits_of.simps digit_chars_def QuoteJSONString_def quote_unit_def
  unicode_escape_def hex_digit_def is_high_surrogate_def is_low_surrogate_def
  JSON_parse_def parse_number_def parse_integer_part_def parse_fraction_def parse_exponent_def
  is_digit_def number_of_digits_def normal_decimal.simps literal_def expect_def prepend_def
  hex_value_def unescape_def parse_numeral Let_def


lemma one_reader_eq:
  "one_reader =
     \<lparr>app_type = Chrome, connected = True, messageQueue = [], readQueue = [Resolve 0],
      incompleteMessage = Undefined, remainingMessageSize = 0, promises = [Pending],
      timers = [], kills = 0\<rparr>"
  by (simp add: one_reader_def engine_defs)

lemma two_readers_eq:
  "two_readers =
     \<lparr>app_type = Chrome, connected = True, messageQueue = [],
      readQueue = [Resolve 0, Resolve 1], incompleteMessage = Undefined,
      remainingMessageSize = 0, promises = [Pending, Pending], timers = [], kills = 0\<rparr>"
  by (simp add: two_readers_def one_reader_eq engine_defs)

lemma timed_out_reader_eq:
  "timed_out_reader =
     \<lparr>app_type = Chrome, connected = True, messageQueue = [], readQueue = [Wrapper 0],
      incompleteMessage = Undefined, remainingMessageSize = 0,
      promises = [Rejected TimeoutReached], timers = [], kills = 0\<rparr>"
  by (simp add: timed_out_reader_def engine_defs)

lemma late_reader_eq:
  "late_reader =
     \<lparr>app_type = Chrome, connected = True, messageQueue = [],
      readQueue = [Wrapper 0, Resolve 1], incompleteMessage = Undefined,
      remainingMessageSize = 0, promises = [Rejected TimeoutReached, Pending], timers = [],
      kills = 0\<rparr>"
  by (simp add: late_reader_def timed_out_reader_eq engine_defs)

lemma two_late_readers_eq:
  "two_late_readers =
     \<lparr>app_type = Chrome, connected = True, messageQueue = [],
      readQueue = [Wrapper 0, Resolve 1, Resolve 2], incompleteMessage = Undefined,
      remainingMessageSize = 0, promises = [Rejected TimeoutReached, Pending, Pending],
      timers = [], kills = 0\<rparr>"
  by (simp add: two_late_readers_def late_reader_eq engine_defs)

section \<open>Framing\<close>

text \<open>
  C1, the round trip under every chunking, at the value 12 with two readers waiting. Its
  frame is six bytes. Delivered as one chunk it reaches the first reader. Cut inside the
  header, the first chunk makes \<open>readUint32\<close> throw a RangeError. Cut inside the payload,
  the first chunk is parsed on its own: the first reader receives 1, an empty buffer stays
  at the head of the queue, and the next iteration throws a RangeError on it. Two frames in
  one chunk are both stored as text of an unfinished message, with a negative count of
  missing bytes, and no reader receives anything.
\<close>

theorem loopback_chunking_fails:
  "sendMessage LE JSON_stringify (JNumber 12 0) = Inr [2, 0, 0, 0, 0x31, 0x32]
   \<and> onData LE JSON_parse [2, 0, 0, 0, 0x31, 0x32] two_readers =
       Normal (two_readers\<lparr>readQueue := [Resolve 1],
                              promises := [Fulfilled (JNumber 12 0), Pending]\<rparr>)
   \<and> onData LE JSON_parse [2, 0] two_readers =
       Throw RangeError (two_readers\<lparr>messageQueue := [[2, 0]]\<rparr>)
   \<and> onData LE JSON_parse [2, 0, 0, 0, 0x31] two_readers =
       Throw RangeError (two_readers\<lparr>messageQueue := [[]], readQueue := [Resolve 1],
                                        promises := [Fulfilled (JNumber 1 0), Pending]\<rparr>)
   \<and> onData LE JSON_parse [2, 0, 0, 0, 0x31, 0x32, 2, 0, 0, 0, 0x31, 0x32] two_readers =
       Normal (two_readers\<lparr>incompleteMessage := Str [0x31, 0x32, 2, 0, 0, 0, 0x31, 0x32],
                              remainingMessageSize := - 6\<rparr>)"
  by (simp add: two_readers_eq engine_defs send_defs json_defs)

text \<open>
  C2, the step on a fresh frame, with one reader waiting. A chunk that holds the frame of
  the value 7 and two more bytes is not dispatched: the bytes after the header become the
  text of an unfinished message, the count of missing bytes becomes -2, and the chunk is
  dropped with its two trailing bytes. A chunk that holds the header of a two-byte frame
  and one byte of payload is dispatched at once, the reader receives 7, and the chunk is
  replaced by an empty buffer instead of being removed.
\<close>

theorem fresh_frame_step_misclassifies:
  "onData LE JSON_parse [1, 0, 0, 0, 0x37, 1, 0] one_reader =
     Normal (one_reader\<lparr>incompleteMessage := Str [0x37, 1, 0], remainingMessageSize := - 2\<rparr>)
   \<and> onData LE JSON_parse [2, 0, 0, 0, 0x37] one_reader =
       Normal (one_reader\<lparr>messageQueue := [[]], readQueue := [],
                             promises := [Fulfilled (JNumber 7 0)]\<rparr>)"
  by (simp add: one_reader_eq engine_defs json_defs)

section \<open>sendMessage\<close>

text \<open>
  C3, the length prefix, at the one-character string U+00E9. Its JSON text has three code
  units and four bytes in UTF-8. \<open>sendMessage\<close> writes the length 3 and three bytes of
  payload: the closing quote is cut off.
\<close>

theorem sendMessage_counts_code_units:
  "JSON_stringify (JString [0xE9]) = [0x22, 0xE9, 0x22]
   \<and> utf8_length (JSON_stringify (JString [0xE9])) = 4
   \<and> sendMessage LE JSON_stringify (JString [0xE9]) = Inr [3, 0, 0, 0, 0x22, 0xC3, 0xA9]"
  by (simp add: send_defs json_defs)

section \<open>Timeouts\<close>

text \<open>
  C4, a reader whose timeout fires. After \<open>readMessage(100)\<close> and the timeout, the
  promise is rejected but the reader is still in the queue: the queue holds the arrow
  function, and \<open>indexOf(resolve)\<close> does not find it. With a second reader registered
  behind it, the frame of the value 7 is taken by the reader that timed out; the second
  reader stays pending and the chunk is gone.
\<close>

theorem timed_out_reader_consumes_frame:
  "timed_out_reader =
     (constructor Chrome)\<lparr>readQueue := [Wrapper 0], promises := [Rejected TimeoutReached]\<rparr>
   \<and> onData LE JSON_parse [1, 0, 0, 0, 0x37] late_reader =
       Normal (late_reader\<lparr>readQueue := [Resolve 1]\<rparr>)
   \<and> promises late_reader = [Rejected TimeoutReached, Pending]"
  by (simp add: timed_out_reader_eq late_reader_eq engine_defs json_defs)

text \<open>Processing the queue arms no timeout: it can only clear some.\<close>

lemma call_timers: "set (timers (call cb x s)) \<subseteq> set (timers s)"
  by (cases cb) (auto simp: resolve_def clearTimeout_def)

lemma dispatchMessage_timers:
  "dispatchMessage parse data s = Normal s' \<Longrightarrow> set (timers s') \<subseteq> set (timers s)"
  "dispatchMessage parse data s = Throw err s' \<Longrightarrow> set (timers s') \<subseteq> set (timers s)"
  using call_timers [of _ _ "s\<lparr>readQueue := tl (readQueue s)\<rparr>"]
  by (auto simp: dispatchMessage_def split: list.splits option.splits)

lemma processHead_timers:
  "set (timers (state_of (processHead e parse buffer s))) \<subseteq> set (timers s)"
proof (cases "processHead e parse buffer s")
  case (Normal s')
  then have "set (timers s') \<subseteq> set (timers s)"
    by (auto simp: processHead_def Let_def
             split: if_splits completion.splits sum.splits
             dest!: dispatchMessage_timers)
  with Normal show ?thesis by simp
next
  case (Throw err s')
  then have "set (timers s') \<subseteq> set (timers s)"
    by (auto simp: processHead_def Let_def
             split: if_splits completion.splits sum.splits
             dest!: dispatchMessage_timers)
  with Throw show ?thesis by simp
qed

lemma processLoop_timers:
  "set (timers (state_of (processLoop e parse s))) \<subseteq> set (timers s)"
proof (induction e parse s rule: processLoop.induct)
  case (1 e parse s)
  show ?case
  proof (cases "messageQueue s")
    case Nil
    then show ?thesis by (simp add: processLoop.simps [of e parse s])
  next
    case (Cons buffer chunks)
    show ?thesis
    proof (cases "readQueue s = []")
      case True
      with Cons show ?thesis by (simp add: processLoop.simps [of e parse s])
    next
      case False
      have head: "set (timers (state_of (processHead e parse buffer s))) \<subseteq> set (timers s)"
        by (rule processHead_timers)
      show ?thesis
      proof (cases "processHead e parse buffer s")
        case (Normal s')
        have "set (timers (state_of (processLoop e parse s'))) \<subseteq> set (timers s')"
          using "1.IH" [OF Cons False Normal] .
        moreover have "set (timers s') \<subseteq> set (timers s)"
          using head Normal by simp
        moreover have "processLoop e parse s = processLoop e parse s'"
          using Cons False Normal by (simp add: processLoop.simps [of e parse s])
        ultimately show ?thesis by simp
      next
        case (Throw err s')
        moreover have "processLoop e parse s = Throw err s'"
          using Cons False Throw by (simp add: processLoop.simps [of e parse s])
        ultimately show ?thesis using head by simp
      qed
    qed
  qed
qed

lemma processMessageQueue_timers:
  "set (timers (state_of (processMessageQueue e parse s))) \<subseteq> set (timers s)"
  by (simp add: processMessageQueue_def processLoop_timers)

text \<open>
  C10: \<open>readMessage(0)\<close> is \<open>readMessage()\<close>. The number 0 is falsy, so the branch
  without a timeout runs: the call does to the connection, and returns, what the call
  without an argument does, and no timeout is armed that was not armed before.
\<close>

theorem readMessage_zero_timeout:
  "readMessage e parse (Some 0) s = readMessage e parse None s
   \<and> set (timers (snd (readMessage e parse (Some 0) s))) \<subseteq> set (timers s)"
proof -
  define s2 where
    "s2 = s\<lparr>promises := promises s @ [Pending],
             readQueue := readQueue s @ [Resolve (length (promises s))]\<rparr>"
  have "set (timers (state_of (processMessageQueue e parse s2))) \<subseteq> set (timers s2)"
    by (rule processMessageQueue_timers)
  moreover have "timers s2 = timers s"
    by (simp add: s2_def)
  moreover have "timers (snd (readMessage e parse None s))
                   = timers (state_of (processMessageQueue e parse s2))"
    by (cases "processMessageQueue e parse s2")
       (simp_all add: readMessage_def truthy_def Let_def reject_def s2_def)
  ultimately have "set (timers (snd (readMessage e parse None s))) \<subseteq> set (timers s)"
    by simp
  then show ?thesis
    by (simp add: readMessage_def truthy_def)
qed

section \<open>Closing the connection\<close>

text \<open>
  C5, readers pending when the connection closes, at one reader and the \<open>close\<close> event:
  the connection is closed, the reader is still in the queue and its promise still
  pending. Nothing fails it.
\<close>

theorem close_leaves_reader_pending:
  "connected one_reader \<and> \<not> connected (onClose one_reader)
   \<and> readQueue (onClose one_reader) = [Resolve 0]
   \<and> promises (onClose one_reader) = [Pending]"
  by (simp add: one_reader_eq onClose_def)

text \<open>
  C5 as the code has it: each of the \<open>error\<close>, \<open>close\<close> and \<open>exit\<close> events clears
  the flag and changes nothing else of the connection; \<open>disconnect\<close> clears the flag,
  calls \<open>kill\<close> once if the connection was open, and changes nothing else. So the
  reader queue, the chunk queue, the partial-frame state, every promise and every armed
  timeout are as before: no pending reader is failed or removed.
\<close>

theorem closing_changes_only_the_flag:
  "onError s = s\<lparr>connected := False\<rparr>
   \<and> onClose s = s\<lparr>connected := False\<rparr>
   \<and> onExit s = s\<lparr>connected := False\<rparr>
   \<and> disconnect s = s\<lparr>connected := False, kills := kills s + (if connected s then 1 else 0)\<rparr>"
  by (simp add: onError_def onClose_def onExit_def disconnect_def)

lemma disconnect_twice: "disconnect (disconnect s) = disconnect s"
  by (simp add: disconnect_def)

lemma disconnect_again: "(disconnect ^^ n) (disconnect s) = disconnect s"
  by (induction n) (simp_all add: disconnect_twice)

text \<open>
  C8: \<open>disconnect\<close> is idempotent. On an open connection the first call kills the
  process once and closes the connection; any number of further calls changes nothing, so
  after any number of calls the process has been killed exactly once more than before.
\<close>

theorem disconnect_idempotent:
  assumes "connected s"
  shows "\<not> connected (disconnect s) \<and> kills (disconnect s) = kills s + 1
         \<and> (disconnect ^^ n) (disconnect s) = disconnect s
         \<and> kills ((disconnect ^^ Suc n) s) = kills s + 1"
proof -
  have first: "\<not> connected (disconnect s) \<and> kills (disconnect s) = kills s + 1"
    using assms by (simp add: disconnect_def)
  have "(disconnect ^^ Suc n) s = (disconnect ^^ n) (disconnect s)"
    by (simp only: funpow_Suc_right o_apply)
  with first show ?thesis
    by (simp only: disconnect_again) simp
qed

theorem disconnect_idempotent_witness:
  "connected (constructor Chrome :: json NativeConnection)
   \<and> \<not> connected (disconnect (constructor Chrome :: json NativeConnection))
   \<and> kills (disconnect (constructor Chrome :: json NativeConnection)) = 1
   \<and> kills ((disconnect ^^ 3) (constructor Chrome :: json NativeConnection)) = 1"
proof -
  have is_open: "connected (constructor Chrome :: json NativeConnection)"
    by (simp add: constructor_def)
  have "kills (constructor Chrome :: json NativeConnection) = 0"
    by (simp add: constructor_def)
  with is_open disconnect_idempotent [OF is_open, of 2] show ?thesis
    by (simp add: numeral_3_eq_3)
qed

section \<open>Malformed payloads\<close>




section \<open>Finding the manifest\<close>





section \<open>Order of delivery\<close>

text \<open>
  C9, first-in first-out delivery. First run: a reader has timed out and is still in the
  queue, two readers wait behind it, and the frames of the values 7 and 12 arrive one
  chunk each. The frame of 7 is taken by the reader that timed out and fulfils nobody; the
  first waiting reader receives 12, the second frame after it was registered, and the
  second waiting reader nothing. Second run: two readers wait, the frames of 7 and 12
  arrive in one chunk and the frame of 9 in the next. The first reader receives 9, the
  third frame; the first two frames are lost.
\<close>

theorem readers_not_served_in_order:
  "onData_all LE JSON_parse [[1, 0, 0, 0, 0x37], [2, 0, 0, 0, 0x31, 0x32]] two_late_readers =
     Normal (two_late_readers\<lparr>readQueue := [Resolve 2],
               promises := [Rejected TimeoutReached, Fulfilled (JNumber 12 0), Pending]\<rparr>)
   \<and> promises two_late_readers = [Rejected TimeoutReached, Pending, Pending]
   \<and> onData_all LE JSON_parse
         [[1, 0, 0, 0, 0x37, 2, 0, 0, 0, 0x31, 0x32], [1, 0, 0, 0, 0x39]] two_readers =
       Normal (two_readers\<lparr>readQueue := [Resolve 1],
                 incompleteMessage := Str [0x37, 2, 0, 0, 0, 0x31, 0x32],
                 remainingMessageSize := - 6,
                 promises := [Fulfilled (JNumber 9 0), Pending]\<rparr>)"
  by (simp add: two_late_readers_eq two_readers_eq engine_defs json_defs)

end
